theory Spec2Isabelle
  imports Complex_Main "HOL-Library.AList"
begin

section \<open>Python values, exceptions and control flow\<close>

text \<open>
  JSON documents as \<open>json.load\<close> returns them. A dict is an association list in
  insertion order; numbers are integers (no claim below depends on a fractional number).
\<close>

datatype json =
    JNull
  | JBool bool
  | JNum int
  | JStr string
  | JList "json list"
  | JDict "(string \<times> json) list"

text \<open>
  Hashable scalars, the values that occur as Unit Keys and as members of a processed
  set: \<open>None\<close>, a \<open>str\<close> (a deal id) or an \<open>int\<close> (a cluster index).
\<close>

datatype pykey = KNone | KStr string | KInt int

text \<open>The exceptions (all subclasses of Python's \<open>Exception\<close>) that the modelled code can meet.\<close>

datatype exc =
    ZeroDivisionError
  | TypeError
  | AttributeError
  | ValueError
  | OSError
  | PermissionError
  | JSONDecodeError
  | EmptyDataError
  | APIError
  | LLMError

text \<open>Python truthiness, as \<open>if v:\<close> tests it.\<close>

fun truthy :: "pykey \<Rightarrow> bool" where
  "truthy KNone = False"
| "truthy (KStr s) = (s \<noteq> [])"
| "truthy (KInt i) = (i \<noteq> 0)"

fun json_truthy :: "json \<Rightarrow> bool" where
  "json_truthy JNull = False"
| "json_truthy (JBool b) = b"
| "json_truthy (JNum i) = (i \<noteq> 0)"
| "json_truthy (JStr s) = (s \<noteq> [])"
| "json_truthy (JList xs) = (xs \<noteq> [])"
| "json_truthy (JDict kvs) = (kvs \<noteq> [])"

text \<open>Sequencing of statements that may raise, and \<open>try: ... except Exception as e: ...\<close>.\<close>

definition and_then :: "exc + 'a \<Rightarrow> ('a \<Rightarrow> exc + 'b) \<Rightarrow> exc + 'b" where
  "and_then r f = (case r of Inl e \<Rightarrow> Inl e | Inr v \<Rightarrow> f v)"

definition try_except :: "exc + 'a \<Rightarrow> (exc \<Rightarrow> exc + 'a) \<Rightarrow> exc + 'a" where
  "try_except body handler = (case body of Inl e \<Rightarrow> handler e | Inr v \<Rightarrow> Inr v)"

section \<open>Checkpoint store (enrichment/checkpoint.py, package\_creation/checkpoint.py)\<close>

text \<open>
  The backing file as the constructor finds it: \<open>checkpoint_file.exists()\<close> itself
  raising (a path in a directory that may not be searched), absent, present but failing
  in \<open>open\<close> or \<open>json.load\<close> (unreadable, or not JSON), or present with a parsed
  document.
\<close>

datatype backing_file = Inaccessible exc | Absent | Unreadable exc | Content json

record checkpoint =
  processed :: "pykey set"
  source_file :: json
  last_updated :: json

text \<open>\<open>data.get(key, default)\<close>: only a dict has the method.\<close>

fun dict_get :: "json \<Rightarrow> string \<Rightarrow> json \<Rightarrow> exc + json" where
  "dict_get (JDict kvs) k dflt = Inr (case map_of kvs k of Some v \<Rightarrow> v | None \<Rightarrow> dflt)"
| "dict_get _ k dflt = Inl AttributeError"

text \<open>A member of a Python set must be hashable; \<open>True\<close> and \<open>1\<close> are the same member.\<close>

fun as_key :: "json \<Rightarrow> exc + pykey" where
  "as_key JNull = Inr KNone"
| "as_key (JBool b) = Inr (KInt (if b then 1 else 0))"
| "as_key (JNum i) = Inr (KInt i)"
| "as_key (JStr s) = Inr (KStr s)"
| "as_key (JList xs) = Inl TypeError"
| "as_key (JDict kvs) = Inl TypeError"

fun keys_of :: "json list \<Rightarrow> exc + pykey set" where
  "keys_of [] = Inr {}"
| "keys_of (x # xs) =
     and_then (as_key x) (\<lambda>k. and_then (keys_of xs) (\<lambda>ks. Inr (insert k ks)))"

text \<open>\<open>set(v)\<close>: iterates a list, the characters of a string or the keys of a dict.\<close>

fun py_set :: "json \<Rightarrow> exc + pykey set" where
  "py_set (JList xs) = keys_of xs"
| "py_set (JStr s) = Inr ((\<lambda>c. KStr [c]) ` set s)"
| "py_set (JDict kvs) = Inr ((\<lambda>kv. KStr (fst kv)) ` set kvs)"
| "py_set _ = Inl TypeError"

text \<open>
  The statements of \<open>_load\<close> inside \<open>try\<close>, after \<open>json.load\<close> has returned \<open>data\<close>.
  \<open>field\<close> is \<open>'processed_deal_ids'\<close> in stage 1 and \<open>'processed_cluster_indices'\<close>
  in stage 2; the two classes are otherwise the same text.
\<close>

definition load_body :: "string \<Rightarrow> json \<Rightarrow> checkpoint \<Rightarrow> exc + checkpoint" where
  "load_body field data cp =
     and_then (dict_get data field (JList [])) (\<lambda>ids.
     and_then (py_set ids) (\<lambda>s.
     and_then (dict_get data ''source_file'' JNull) (\<lambda>src.
     and_then (dict_get data ''last_updated'' JNull) (\<lambda>upd.
       Inr (cp\<lparr>processed := s, source_file := src, last_updated := upd\<rparr>)))))"

text \<open>
  \<open>_load\<close>. The test \<open>checkpoint_file.exists()\<close> stands before the \<open>try\<close>; what it
  raises leaves \<open>_load\<close>, and the constructor with it.
\<close>

definition load :: "string \<Rightarrow> backing_file \<Rightarrow> checkpoint \<Rightarrow> exc + checkpoint" where
  "load field file cp =
     (case file of
        Inaccessible e \<Rightarrow> Inl e
      | Absent \<Rightarrow> Inr cp
      | Unreadable e \<Rightarrow> try_except (Inl e) (\<lambda>e. Inr (cp\<lparr>processed := {}\<rparr>))
      | Content data \<Rightarrow>
          try_except (load_body field data cp) (\<lambda>e. Inr (cp\<lparr>processed := {}\<rparr>)))"

definition new_checkpoint :: checkpoint where
  "new_checkpoint = \<lparr>processed = {}, source_file = JNull, last_updated = JNull\<rparr>"

text \<open>The constructors: set the empty state, then \<open>_load\<close>.\<close>

definition EnrichmentCheckpoint :: "backing_file \<Rightarrow> exc + checkpoint" where
  "EnrichmentCheckpoint file = load ''processed_deal_ids'' file new_checkpoint"

definition PackageCreationCheckpoint :: "backing_file \<Rightarrow> exc + checkpoint" where
  "PackageCreationCheckpoint file = load ''processed_cluster_indices'' file new_checkpoint"

definition is_processed :: "checkpoint \<Rightarrow> pykey \<Rightarrow> bool" where
  "is_processed cp k = (k \<in> processed cp)"

definition mark_processed :: "checkpoint \<Rightarrow> pykey \<Rightarrow> checkpoint" where
  "mark_processed cp k = cp\<lparr>processed := insert k (processed cp)\<rparr>"

text \<open>
  A candidate Unit as \<open>get_unprocessed_deals\<close> receives it: an object, with a
  \<open>deal_id\<close> attribute or without one, or a dict, with a \<open>'deal_id'\<close> entry or without
  one. The second field is the rest of the Unit.
\<close>

datatype 'a deal = Obj "pykey option" 'a | DictDeal "pykey option" 'a

text \<open>
  The three-way lookup of \<open>get_unprocessed_deals\<close>: \<open>getattr\<close> when the attribute is
  there, else \<open>dict.get\<close> on a dict, else \<open>getattr(deal, 'deal_id', None)\<close>, which is
  \<open>None\<close> since the first test failed.
\<close>

fun lookup_deal_id :: "'a deal \<Rightarrow> pykey" where
  "lookup_deal_id (Obj (Some v) x) = v"
| "lookup_deal_id (DictDeal (Some v) x) = v"
| "lookup_deal_id (DictDeal None x) = KNone"
| "lookup_deal_id (Obj None x) = KNone"

definition keep_deal :: "checkpoint \<Rightarrow> 'a deal \<Rightarrow> bool" where
  "keep_deal cp d =
     (let deal_id = lookup_deal_id d in
      if truthy deal_id \<and> \<not> is_processed cp deal_id then True
      else if \<not> truthy deal_id then True
      else False)"

fun get_unprocessed_deals :: "checkpoint \<Rightarrow> 'a deal list \<Rightarrow> 'a deal list" where
  "get_unprocessed_deals cp [] = []"
| "get_unprocessed_deals cp (d # ds) =
     (if keep_deal cp d then d # get_unprocessed_deals cp ds
      else get_unprocessed_deals cp ds)"

section \<open>Batch processor (enrichment/enricher.py)\<close>

text \<open>
  What a loop does to the outside world, in the order it does it: a call of the external
  transform on a Unit, an Export Record handed to the exporter, a key added to the
  checkpoint, a checkpoint written to its file (with the key set it holds).
\<close>

datatype ('u, 'e) event = Process 'u | Export 'e | Mark pykey | Save "pykey set"

record ('u, 'e) batch_state =
  results :: "'e list"
  errors :: nat
  ckpt :: "checkpoint option"
  trace :: "('u, 'e) event list"

text \<open>\<open>deal.deal_id\<close>: attribute access, which raises where the attribute is missing.\<close>

fun attr_deal_id :: "'a deal \<Rightarrow> exc + pykey" where
  "attr_deal_id (Obj (Some v) x) = Inr v"
| "attr_deal_id (Obj None x) = Inl AttributeError"
| "attr_deal_id (DictDeal v x) = Inl AttributeError"

definition log_event :: "('u, 'e) event \<Rightarrow> ('u, 'e) batch_state \<Rightarrow> ('u, 'e) batch_state" where
  "log_event ev st = st\<lparr>trace := trace st @ [ev]\<rparr>"

text \<open>
  \<open>sorted(list(self.processed_deal_ids))\<close> compares the keys: strings with strings
  and integers with integers compare, any other pair raises \<open>TypeError\<close>. A set of one
  key is sorted without a comparison.
\<close>

fun is_str :: "pykey \<Rightarrow> bool" where
  "is_str (KStr s) = True"
| "is_str _ = False"

fun is_int :: "pykey \<Rightarrow> bool" where
  "is_int (KInt i) = True"
| "is_int _ = False"

definition sortable :: "pykey set \<Rightarrow> bool" where
  "sortable ks = ((\<forall>k \<in> ks. is_str k) \<or> (\<forall>k \<in> ks. is_int k) \<or> ks = {KNone})"

text \<open>
  \<open>checkpoint.save()\<close>: it stamps \<open>last_updated\<close> with the time of the clock, builds
  the document with the sorted keys, and only then enters the \<open>try\<close> that writes the
  file and catches what the write raises. \<open>clock n\<close> is the reading of the clock after
  \<open>n\<close> events.
\<close>

definition save ::
  "(nat \<Rightarrow> string) \<Rightarrow> ('u, 'e) batch_state \<Rightarrow> exc option \<times> ('u, 'e) batch_state" where
  "save clock st =
     (case ckpt st of
        None \<Rightarrow> (None, st)
      | Some cp \<Rightarrow>
          (let cp = cp\<lparr>last_updated := JStr (clock (length (trace st)))\<rparr>;
               st = st\<lparr>ckpt := Some cp\<rparr>
           in if sortable (processed cp) then (None, log_event (Save (processed cp)) st)
              else (Some TypeError, st)))"

definition mark :: "pykey \<Rightarrow> ('u, 'e) batch_state \<Rightarrow> ('u, 'e) batch_state" where
  "mark k st =
     (case ckpt st of None \<Rightarrow> st
      | Some cp \<Rightarrow> log_event (Mark k) (st\<lparr>ckpt := Some (mark_processed cp k)\<rparr>))"

text \<open>
  The statements inside \<open>try\<close> of \<open>enrich_batch\<close> for one deal. The result is the
  exception raised, if any, with the state as the statements before it left it. The last
  statement formats a log line from \<open>deal.deal_id\<close>.
\<close>

definition enrich_try ::
  "('a deal \<Rightarrow> exc + 'e) \<Rightarrow> (nat \<Rightarrow> string) \<Rightarrow> (int \<Rightarrow> 'e \<Rightarrow> exc option) option \<Rightarrow>
   bool \<Rightarrow> bool \<Rightarrow> int \<Rightarrow> 'a deal \<Rightarrow> ('a deal, 'e) batch_state \<Rightarrow>
   exc option \<times> ('a deal, 'e) batch_state" where
  "enrich_try enrich_deal clock progress_callback incremental exporter idx deal st =
     (let st = log_event (Process deal) st in
      case enrich_deal deal of
        Inl e \<Rightarrow> (Some e, st)
      | Inr enriched_deal \<Rightarrow>
          (let st = st\<lparr>results := results st @ [enriched_deal]\<rparr>;
               marked =
                 (if incremental \<and> ckpt st \<noteq> None then
                    (case attr_deal_id deal of
                       Inl e \<Rightarrow> (Some e, st)
                     | Inr k \<Rightarrow>
                         (let st = mark k st in
                          if idx mod 10 = 0 then save clock st else (None, st)))
                  else (None, st))
           in case fst marked of
                Some e \<Rightarrow> marked
              | None \<Rightarrow>
                  (let st = snd marked;
                       st = (if incremental \<and> exporter then log_event (Export enriched_deal) st
                             else st)
                   in case (case progress_callback of None \<Rightarrow> None
                            | Some cb \<Rightarrow> cb idx enriched_deal) of
                        Some e \<Rightarrow> (Some e, st)
                      | None \<Rightarrow>
                          (case attr_deal_id deal of
                             Inl e \<Rightarrow> (Some e, st)
                           | Inr k \<Rightarrow> (None, st)))))"

text \<open>
  One iteration: the \<open>try\<close> block and its handler, which counts the error, formats the
  log line from \<open>deal.deal_id\<close> (raising again where that is missing) and re-raises
  unless \<open>continue_on_error\<close>.
\<close>

definition enrich_iteration ::
  "('a deal \<Rightarrow> exc + 'e) \<Rightarrow> (nat \<Rightarrow> string) \<Rightarrow> (int \<Rightarrow> 'e \<Rightarrow> exc option) option \<Rightarrow>
   bool \<Rightarrow> bool \<Rightarrow> bool \<Rightarrow> int \<Rightarrow> 'a deal \<Rightarrow> ('a deal, 'e) batch_state \<Rightarrow>
   exc option \<times> ('a deal, 'e) batch_state" where
  "enrich_iteration enrich_deal clock progress_callback continue_on_error incremental exporter
     idx deal st =
     (case enrich_try enrich_deal clock progress_callback incremental exporter idx deal st of
        (None, st') \<Rightarrow> (None, st')
      | (Some e, st') \<Rightarrow>
          (let st' = st'\<lparr>errors := errors st' + 1\<rparr> in
           case attr_deal_id deal of
             Inl e' \<Rightarrow> (Some e', st')
           | Inr k \<Rightarrow> if \<not> continue_on_error then (Some e, st') else (None, st')))"

fun enrich_loop ::
  "('a deal \<Rightarrow> exc + 'e) \<Rightarrow> (nat \<Rightarrow> string) \<Rightarrow> (int \<Rightarrow> 'e \<Rightarrow> exc option) option \<Rightarrow>
   bool \<Rightarrow> bool \<Rightarrow> bool \<Rightarrow> int \<Rightarrow> 'a deal list \<Rightarrow> ('a deal, 'e) batch_state \<Rightarrow>
   exc option \<times> ('a deal, 'e) batch_state" where
  "enrich_loop enrich_deal clock cb coe incremental exporter idx [] st = (None, st)"
| "enrich_loop enrich_deal clock cb coe incremental exporter idx (deal # deals) st =
     (case enrich_iteration enrich_deal clock cb coe incremental exporter idx deal st of
        (Some e, st') \<Rightarrow> (Some e, st')
      | (None, st') \<Rightarrow>
          enrich_loop enrich_deal clock cb coe incremental exporter (idx + 1) deals st')"

text \<open>
  \<open>DealEnricher.enrich_batch\<close>. \<open>checkpoint_file\<close> is \<open>None\<close> when no path is given,
  else the state of the file at that path; \<open>exporter\<close> says whether \<open>output_dir\<close> and
  \<open>timestamp\<close> are given, so that an exporter is built. The list returned is
  \<open>results\<close> of the final state. The final save stands outside every \<open>try\<close>: what it
  raises leaves \<open>enrich_batch\<close>.
\<close>

definition enrich_batch ::
  "('a deal \<Rightarrow> exc + 'e) \<Rightarrow> (nat \<Rightarrow> string) \<Rightarrow> 'a deal list \<Rightarrow>
   (int \<Rightarrow> 'e \<Rightarrow> exc option) option \<Rightarrow> bool \<Rightarrow> bool \<Rightarrow> backing_file option \<Rightarrow> bool \<Rightarrow>
   exc option \<times> ('a deal, 'e) batch_state" where
  "enrich_batch enrich_deal clock deals progress_callback continue_on_error incremental
     checkpoint_file exporter =
     (let st0 = \<lparr>results = [], errors = 0, ckpt = None, trace = []\<rparr> in
      case (if incremental then
              (case checkpoint_file of
                 None \<Rightarrow> Inr (st0, deals)
               | Some file \<Rightarrow>
                   and_then (EnrichmentCheckpoint file) (\<lambda>cp.
                     Inr (st0\<lparr>ckpt := Some cp\<rparr>, get_unprocessed_deals cp deals)))
            else Inr (st0, deals)) of
        Inl e \<Rightarrow> (Some e, st0)
      | Inr (st, deals) \<Rightarrow>
          (case enrich_loop enrich_deal clock progress_callback continue_on_error incremental
                  exporter 1 deals st of
             (Some e, st') \<Rightarrow> (Some e, st')
           | (None, st') \<Rightarrow> if incremental then save clock st' else (None, st')))"

section \<open>Bounded semantic partitioner (package\_creation/clustering.py)\<close>

text \<open>
  The scikit-learn models are external. Each is given by what it returns for a number of
  components: the label of every embedding row (\<open>fit_predict\<close>), the information
  criterion of a fitted mixture (\<open>fit\<close> then \<open>bic\<close>), the membership probability of
  every row in every component (\<open>fit\<close> then \<open>predict_proba\<close>, row first). A fit may
  raise. Probabilities and criteria are rationals.
\<close>

record sklearn =
  gmm_fit_predict :: "int \<Rightarrow> exc + nat list"
  kmeans_fit_predict :: "int \<Rightarrow> exc + nat list"
  gmm_bic :: "int \<Rightarrow> exc + rat"
  gmm_predict_proba :: "int \<Rightarrow> exc + (nat \<Rightarrow> nat \<Rightarrow> rat)"

datatype clustering_method = Kmeans | Gmm

text \<open>
  Lines 58 and 59 (and 175, 176): \<open>max(3, len(deals) // max_deals_per_cluster)\<close> capped
  by \<open>len(deals) // min_cluster_size\<close>. Python's \<open>//\<close> on integers rounds down, as
  \<open>div\<close> on \<open>int\<close> does, and raises on a zero divisor.
\<close>

definition target_n_clusters :: "nat \<Rightarrow> int \<Rightarrow> int \<Rightarrow> exc + int" where
  "target_n_clusters n_deals max_deals_per_cluster min_cluster_size =
     (if max_deals_per_cluster = 0 then Inl ZeroDivisionError
      else if min_cluster_size = 0 then Inl ZeroDivisionError
      else Inr (min (max 3 (int n_deals div max_deals_per_cluster))
                    (int n_deals div min_cluster_size)))"

text \<open>
  One candidate of \<open>_select_optimal_components\<close>. \<open>best_bic\<close> starts at infinity,
  written \<open>None\<close>; a candidate whose fit raises is skipped.
\<close>

fun select_step :: "(int \<Rightarrow> exc + rat) \<Rightarrow> int \<Rightarrow> rat option \<times> int \<Rightarrow> rat option \<times> int" where
  "select_step fit_bic n (best_bic, best_n) =
     (case fit_bic n of
        Inl e \<Rightarrow> (best_bic, best_n)
      | Inr bic \<Rightarrow>
          (if (case best_bic of None \<Rightarrow> True | Some b \<Rightarrow> bic < b) then (Some bic, n)
           else (best_bic, best_n)))"

definition select_optimal_components :: "nat \<Rightarrow> (int \<Rightarrow> exc + rat) \<Rightarrow> int \<Rightarrow> int \<Rightarrow> int" where
  "select_optimal_components n_samples fit_bic max_components min_components =
     (let max_components = min max_components (int n_samples div 2)
      in snd (fold (select_step fit_bic) [min_components..max_components]
                (None, min_components)))"

text \<open>
  Lines 61 to 78: the labels, from the mixture (with the number of components given, or
  selected with the default \<open>min_components=3\<close>) or from k-means.
\<close>

definition cluster_labels ::
  "sklearn \<Rightarrow> nat \<Rightarrow> clustering_method \<Rightarrow> int option \<Rightarrow> int \<Rightarrow> exc + nat list" where
  "cluster_labels sk n_samples method n_components n_clusters =
     (case method of
        Gmm \<Rightarrow>
          gmm_fit_predict sk
            (case n_components of
               None \<Rightarrow> select_optimal_components n_samples (gmm_bic sk) n_clusters 3
             | Some k \<Rightarrow> k)
      | Kmeans \<Rightarrow> kmeans_fit_predict sk n_clusters)"

text \<open>Lines 81 to 85: the dict from label to indices, in insertion order.\<close>

fun add_index :: "nat \<times> nat \<Rightarrow> (nat \<times> nat list) list \<Rightarrow> (nat \<times> nat list) list" where
  "add_index (idx, label) clusters =
     (case map_of clusters label of
        None \<Rightarrow> clusters @ [(label, [idx])]
      | Some deal_indices \<Rightarrow> AList.update label (deal_indices @ [idx]) clusters)"

definition group_by_label :: "nat list \<Rightarrow> (nat \<times> nat list) list" where
  "group_by_label labels = fold add_index (zip [0..<length labels] labels) []"

text \<open>\<open>[xs[i:i + m] for i in range(0, len(xs), m)]\<close> for a step \<open>m\<close>.\<close>

function chunks :: "nat \<Rightarrow> 'a list \<Rightarrow> 'a list list" where
  "chunks m xs = (if m = 0 \<or> xs = [] then [] else take m xs # chunks m (drop m xs))"
  by pat_completeness auto
termination
  by (relation "measure (\<lambda>(m, xs). length xs)") auto

declare chunks.simps [simp del]

text \<open>
  The slices for an integer step. A negative step makes \<open>range(0, n, step)\<close> empty; a
  zero step does not reach the loop, the division above having raised.
\<close>

definition slices :: "int \<Rightarrow> 'a list \<Rightarrow> 'a list list" where
  "slices step xs = (if 0 < step then chunks (nat step) xs else [])"

definition split_large :: "int \<Rightarrow> nat list \<Rightarrow> nat list list" where
  "split_large max_deals_per_cluster deal_indices =
     (if int (length deal_indices) \<le> max_deals_per_cluster then [deal_indices]
      else slices max_deals_per_cluster deal_indices)"

definition final_clusters :: "int \<Rightarrow> int \<Rightarrow> nat list \<Rightarrow> nat list list" where
  "final_clusters max_deals_per_cluster min_cluster_size labels =
     filter (\<lambda>c. min_cluster_size \<le> int (length c))
       (concat (map (\<lambda>lc. split_large max_deals_per_cluster (snd lc)) (group_by_label labels)))"

text \<open>
  \<open>cluster_deals_semantically\<close> (hard mode). \<open>n_deals\<close> is \<open>len(deals)\<close> and
  \<open>n_samples\<close> is \<open>len(embeddings)\<close>.
\<close>

definition cluster_deals_semantically ::
  "sklearn \<Rightarrow> nat \<Rightarrow> nat \<Rightarrow> int \<Rightarrow> int \<Rightarrow> clustering_method \<Rightarrow> int option \<Rightarrow>
   exc + nat list list" where
  "cluster_deals_semantically sk n_deals n_samples max_deals_per_cluster min_cluster_size
     method n_components =
     (if int n_deals < min_cluster_size then Inr []
      else
        and_then (target_n_clusters n_deals max_deals_per_cluster min_cluster_size) (\<lambda>k.
        and_then (cluster_labels sk n_samples method n_components k) (\<lambda>labels.
          Inr (final_clusters max_deals_per_cluster min_cluster_size labels))))"

text \<open>
  \<open>cluster_deals_with_soft_assignments\<close> (soft mode), lines 192 to 211 for one
  component: the rows at or above the threshold, kept when there are enough of them, and
  cut in probability-descending order when there are too many. Python's \<open>sorted\<close> is
  stable, also with \<open>reverse=True\<close>; so is \<open>sort_key\<close>.
\<close>

definition component_members :: "nat \<Rightarrow> (nat \<Rightarrow> nat \<Rightarrow> rat) \<Rightarrow> rat \<Rightarrow> nat \<Rightarrow> nat list" where
  "component_members n_samples probabilities probability_threshold component_idx =
     filter (\<lambda>idx. probability_threshold \<le> probabilities idx component_idx) [0..<n_samples]"

definition component_clusters ::
  "nat \<Rightarrow> (nat \<Rightarrow> nat \<Rightarrow> rat) \<Rightarrow> int \<Rightarrow> int \<Rightarrow> rat \<Rightarrow> nat \<Rightarrow> nat list list" where
  "component_clusters n_samples probabilities max_deals_per_cluster min_cluster_size
     probability_threshold component_idx =
     (let deal_indices =
            component_members n_samples probabilities probability_threshold component_idx
      in if min_cluster_size \<le> int (length deal_indices) then
           (if int (length deal_indices) \<le> max_deals_per_cluster then [deal_indices]
            else slices max_deals_per_cluster
                   (sort_key (\<lambda>idx. - probabilities idx component_idx) deal_indices))
         else [])"

definition cluster_deals_with_soft_assignments ::
  "sklearn \<Rightarrow> nat \<Rightarrow> nat \<Rightarrow> int \<Rightarrow> int \<Rightarrow> rat \<Rightarrow> exc + nat list list" where
  "cluster_deals_with_soft_assignments sk n_deals n_samples max_deals_per_cluster
     min_cluster_size probability_threshold =
     (if int n_deals < min_cluster_size then Inr []
      else
        and_then (target_n_clusters n_deals max_deals_per_cluster min_cluster_size) (\<lambda>n_components.
        and_then (gmm_predict_proba sk n_components) (\<lambda>probabilities.
          Inr (concat (map (component_clusters n_samples probabilities max_deals_per_cluster
                              min_cluster_size probability_threshold)
                         [0..<nat n_components])))))"

section \<open>Incremental exporter (enrichment/incremental\_exporter.py)\<close>

subsection \<open>Flattening (common/data\_exporter.py)\<close>

text \<open>
  \<open>dict(items)\<close>: a later pair of a key already seen replaces the value and keeps the
  key's place.
\<close>

definition dict_of_items :: "(string \<times> json) list \<Rightarrow> (string \<times> json) list" where
  "dict_of_items items = fold (\<lambda>kv d. AList.update (fst kv) (snd kv) d) items []"

text \<open>
  The loop of \<open>flatten_dict\<close>, building \<open>items\<close>. \<open>dumps\<close> is \<open>json.dumps\<close>. An
  excluded key keeps its own name, not the prefixed one, as line 59 has it.
\<close>

fun flatten_items ::
  "(json \<Rightarrow> string) \<Rightarrow> string set \<Rightarrow> string \<Rightarrow> string \<Rightarrow> (string \<times> json) list \<Rightarrow>
   (string \<times> json) list" where
  "flatten_items dumps exclude_keys sep parent_key [] = []"
| "flatten_items dumps exclude_keys sep parent_key ((k, v) # rest) =
     (let new_key = (if parent_key \<noteq> [] then parent_key @ sep @ k else k)
      in (if k \<in> exclude_keys then [(k, JStr (if json_truthy v then dumps v else []))]
          else
            (case v of
               JDict sub \<Rightarrow> dict_of_items (flatten_items dumps exclude_keys sep new_key sub)
             | JList xs \<Rightarrow> [(new_key, JStr (if json_truthy v then dumps v else []))]
             | _ \<Rightarrow> [(new_key, v)]))
         @ flatten_items dumps exclude_keys sep parent_key rest)"

definition flatten_dict ::
  "(json \<Rightarrow> string) \<Rightarrow> (string \<times> json) list \<Rightarrow> string set \<Rightarrow> (string \<times> json) list" where
  "flatten_dict dumps d exclude_keys = dict_of_items (flatten_items dumps exclude_keys ''_'' [] d)"

text \<open>
  The first statements of \<open>_append_tsv\<close> and of \<open>_append_to_sheets\<close>: the flattened
  record, with \<open>raw_deal_data\<close> added when it is not there. Its keys, in order, are the
  columns of the one-row data frame.
\<close>

definition flattened_record :: "(json \<Rightarrow> string) \<Rightarrow> (string \<times> json) list \<Rightarrow> (string \<times> json) list" where
  "flattened_record dumps deal_dict =
     (let flattened = flatten_dict dumps deal_dict {''raw_deal_data''}
      in if ''raw_deal_data'' \<notin> fst ` set flattened
         then flattened @
                [(''raw_deal_data'',
                  JStr (dumps (case map_of deal_dict ''raw_deal_data'' of
                                 Some v \<Rightarrow> v | None \<Rightarrow> JDict [])))]
         else flattened)"

subsection \<open>State and collaborators\<close>

text \<open>
  The library functions the exporter calls on values: \<open>json.dumps\<close>, Python's \<open>str\<close>
  on a value that is not a string, and the text the spreadsheet shows for a written cell
  that is neither a string nor empty.
\<close>

record env =
  dumps :: "json \<Rightarrow> string"
  repr :: "json \<Rightarrow> string"
  render :: "json \<Rightarrow> string"

definition py_str :: "env \<Rightarrow> json \<Rightarrow> string" where
  "py_str ev v = (case v of JStr s \<Rightarrow> s | _ \<Rightarrow> repr ev v)"

definition cell_text :: "env \<Rightarrow> json \<Rightarrow> string" where
  "cell_text ev v = (case v of JStr s \<Rightarrow> s | JNull \<Rightarrow> [] | _ \<Rightarrow> render ev v)"

text \<open>
  The outcome of each external operation during one call of \<open>export_deal\<close>: \<open>None\<close>
  when it succeeds, else the exception it raises.
\<close>

record io =
  jsonl_write :: "exc option"
  tsv_write :: "exc option"
  sheet_get_all_values :: "exc option"
  sheet_resize :: "exc option"
  sheet_update_header :: "exc option"
  sheet_update_row :: "exc option"

text \<open>
  The exporter's fields, with the three artifacts they write to: the lines of the append
  log, the lines of the TSV file (\<open>None\<close> while there is no file; the first line is the
  header) and the cells of the remote worksheet, row 1 first, with its column capacity.
  \<open>worksheet\<close> says whether \<open>self.worksheet\<close> is set.
\<close>

record exporter =
  jsonl_file :: "json list"
  tsv_file :: "json list list option"
  tsv_header_written :: bool
  tsv_columns :: "string list option"
  worksheet :: bool
  sheet :: "json list list"
  col_count :: nat
  sheets_header_written :: bool
  sheets_header_updated :: bool
  sheets_header_columns :: "nat option"
  sheets_next_row :: nat
  deal_id_to_row :: "(string \<times> nat) list"

definition raising :: "exc option \<Rightarrow> 'a \<Rightarrow> exc + 'a" where
  "raising outcome v = (case outcome of Some e \<Rightarrow> Inl e | None \<Rightarrow> Inr v)"

subsection \<open>Append log and TSV\<close>

definition append_jsonl :: "io \<Rightarrow> (string \<times> json) list \<Rightarrow> exporter \<Rightarrow> exc + exporter" where
  "append_jsonl i deal_dict st =
     try_except
       (raising (jsonl_write i) (st\<lparr>jsonl_file := jsonl_file st @ [JDict deal_dict]\<rparr>))
       (\<lambda>e. Inr st)"

text \<open>\<open>df_row.reindex(columns=cols, fill_value=None)\<close> on the one-row frame of a flattened record.\<close>

definition reindex :: "string list \<Rightarrow> (string \<times> json) list \<Rightarrow> json list" where
  "reindex cols flattened = map (\<lambda>c. case map_of flattened c of Some v \<Rightarrow> v | None \<Rightarrow> JNull) cols"

definition append_tsv_body :: "env \<Rightarrow> io \<Rightarrow> (string \<times> json) list \<Rightarrow> exporter \<Rightarrow> exc + exporter" where
  "append_tsv_body ev i deal_dict st =
     (let flattened = flattened_record (dumps ev) deal_dict;
          columns = map fst flattened
      in if \<not> tsv_header_written st then
           raising (tsv_write i)
             (st\<lparr>tsv_file := Some [map JStr columns, map snd flattened],
                 tsv_header_written := True,
                 tsv_columns := Some columns\<rparr>)
         else
           (let row = (case tsv_columns st of
                         None \<Rightarrow> map snd flattened
                       | Some cols \<Rightarrow> if cols \<noteq> [] then reindex cols flattened
                                     else map snd flattened)
            in raising (tsv_write i)
                 (st\<lparr>tsv_file := Some ((case tsv_file st of None \<Rightarrow> [] | Some ls \<Rightarrow> ls) @ [row])\<rparr>)))"

definition append_tsv :: "env \<Rightarrow> io \<Rightarrow> (string \<times> json) list \<Rightarrow> exporter \<Rightarrow> exc + exporter" where
  "append_tsv ev i deal_dict st = try_except (append_tsv_body ev i deal_dict st) (\<lambda>e. Inr st)"

subsection \<open>Remote spreadsheet\<close>

text \<open>
  \<open>worksheet.get_all_values()\<close> returns the text of every cell. \<open>worksheet.update\<close> of
  one row of values at \<open>A{r}\<close> writes the cells of row \<open>r\<close> that the values cover and
  leaves the cell under a \<open>None\<close> value as it is (the Sheets API skips null values on
  input); a row below the last one is created. Row numbers start at 1.
\<close>

definition get_all_values :: "env \<Rightarrow> exporter \<Rightarrow> string list list" where
  "get_all_values ev st = map (map (cell_text ev)) (sheet st)"

fun overwrite :: "json list \<Rightarrow> json list \<Rightarrow> json list" where
  "overwrite [] old = old"
| "overwrite (v # vals) old =
     (if v = JNull then (case old of [] \<Rightarrow> JNull | c # cells \<Rightarrow> c) else v) # overwrite vals (tl old)"

definition write_range :: "nat \<Rightarrow> json list \<Rightarrow> json list list \<Rightarrow> json list list" where
  "write_range r vals rows =
     (let rows = rows @ replicate (r - length rows) []
      in rows[r - 1 := overwrite vals (rows ! (r - 1))])"

text \<open>The values of the row sent to the sheet (lines 232 to 246): long text is cut.\<close>

definition sheet_value :: "json \<Rightarrow> json" where
  "sheet_value val =
     (case val of
        JStr s \<Rightarrow> if length s > 49000 then JStr (take 49000 s) else val
      | _ \<Rightarrow> val)"

text \<open>The guarded resize before a header is written (lines 262 to 270 and 278 to 286).\<close>

definition resize_for :: "io \<Rightarrow> nat \<Rightarrow> exporter \<Rightarrow> exporter" where
  "resize_for i n st =
     (let current_cols = col_count st;
          cols_needed = max (max (n + 10) current_cols) 50
      in if cols_needed > current_cols then
           (case sheet_resize i of Some e \<Rightarrow> st | None \<Rightarrow> st\<lparr>col_count := cols_needed\<rparr>)
         else st)"

definition write_header :: "io \<Rightarrow> string list \<Rightarrow> bool \<Rightarrow> exporter \<Rightarrow> exc option \<times> exporter" where
  "write_header i new_header first_time st =
     (let st = resize_for i (length new_header) st
      in case sheet_update_header i of
           Some e \<Rightarrow> (Some e, st)
         | None \<Rightarrow>
             (None,
              st\<lparr>sheet := write_range 1 (map JStr new_header) (sheet st),
                 sheets_header_written := (first_time \<or> sheets_header_written st),
                 sheets_header_updated := True,
                 sheets_header_columns := Some (length new_header)\<rparr>))"

text \<open>Lines 249 to 292: the header is looked at until it has been rewritten once.\<close>

definition check_header :: "env \<Rightarrow> io \<Rightarrow> string list \<Rightarrow> exporter \<Rightarrow> exc option \<times> exporter" where
  "check_header ev i new_header st =
     (if \<not> sheets_header_updated st then
        (case sheet_get_all_values i of
           Some e \<Rightarrow> (Some e, st)
         | None \<Rightarrow>
             (case get_all_values ev st of
                existing_header # rest \<Rightarrow>
                  if existing_header \<noteq> new_header then write_header i new_header False st
                  else (None, st)
              | [] \<Rightarrow>
                  if \<not> sheets_header_written st then write_header i new_header True st
                  else (None, st)))
      else (None, st))"

text \<open>Lines 295 to 305: the number of columns of a row.\<close>

definition header_width :: "env \<Rightarrow> io \<Rightarrow> nat \<Rightarrow> exporter \<Rightarrow> exc option \<times> nat \<times> exporter" where
  "header_width ev i n_columns st =
     (case sheets_header_columns st of
        Some n \<Rightarrow>
          if n \<noteq> 0 then (None, n, st)
          else
            (case sheet_get_all_values i of
               Some e \<Rightarrow> (Some e, 0, st)
             | None \<Rightarrow>
                 (case get_all_values ev st of
                    h # rest \<Rightarrow> (None, length h, st)
                  | [] \<Rightarrow> (None, n_columns, st\<lparr>sheets_header_columns := Some n_columns\<rparr>)))
      | None \<Rightarrow>
          (case sheet_get_all_values i of
             Some e \<Rightarrow> (Some e, 0, st)
           | None \<Rightarrow>
               (case get_all_values ev st of
                  h # rest \<Rightarrow> (None, length h, st)
                | [] \<Rightarrow> (None, n_columns, st\<lparr>sheets_header_columns := Some n_columns\<rparr>))))"

text \<open>Lines 308 to 313: pad with \<open>None\<close>, then cut.\<close>

definition fit_row :: "nat \<Rightarrow> json list \<Rightarrow> json list" where
  "fit_row num_cols row_values =
     take num_cols (row_values @ replicate (num_cols - length row_values) JNull)"

text \<open>
  Lines 317 to 321: the row of the record's key in the index, looked up only for a
  truthy key and a non-empty index.
\<close>

definition target_row :: "env \<Rightarrow> (string \<times> json) list \<Rightarrow> exporter \<Rightarrow> nat option" where
  "target_row ev deal_dict st =
     (let deal_id = (case map_of deal_dict ''deal_id'' of Some v \<Rightarrow> v | None \<Rightarrow> JNull)
      in if json_truthy deal_id \<and> deal_id_to_row st \<noteq> []
         then map_of (deal_id_to_row st) (py_str ev deal_id) else None)"

text \<open>
  Lines 325 to 335: an indexed row is overwritten; any other record goes to
  \<open>sheets_next_row\<close>, which then moves on. A range at row 0 is refused by the sheet.
\<close>

definition place_row :: "io \<Rightarrow> nat option \<Rightarrow> json list \<Rightarrow> exporter \<Rightarrow> exc option \<times> exporter" where
  "place_row i target row_values st =
     (case sheet_update_row i of
        Some e \<Rightarrow> (Some e, st)
      | None \<Rightarrow>
          (if target \<noteq> None \<and> target \<noteq> Some 0 then
             (None, st\<lparr>sheet := write_range (the target) row_values (sheet st)\<rparr>)
           else if sheets_next_row st = 0 then (Some APIError, st)
           else
             (None,
              st\<lparr>sheet := write_range (sheets_next_row st) row_values (sheet st),
                 sheets_next_row := sheets_next_row st + 1\<rparr>)))"

text \<open>The statements of \<open>_append_to_sheets\<close> inside \<open>try\<close>.\<close>

definition append_to_sheets_body ::
  "env \<Rightarrow> io \<Rightarrow> (string \<times> json) list \<Rightarrow> exporter \<Rightarrow> exc option \<times> exporter" where
  "append_to_sheets_body ev i deal_dict st =
     (let flattened = flattened_record (dumps ev) deal_dict;
          row_values = map (\<lambda>kv. sheet_value (snd kv)) flattened;
          new_header = map fst flattened
      in case check_header ev i new_header st of
           (Some e, st) \<Rightarrow> (Some e, st)
         | (None, st) \<Rightarrow>
             (case header_width ev i (length new_header) st of
                (Some e, num_cols, st) \<Rightarrow> (Some e, st)
              | (None, num_cols, st) \<Rightarrow>
                  place_row i (target_row ev deal_dict st) (fit_row num_cols row_values) st))"

text \<open>
  \<open>_append_to_sheets\<close>: nothing without a worksheet; else the body, with any exception
  it raises logged and dropped.
\<close>

definition append_to_sheets :: "env \<Rightarrow> io \<Rightarrow> (string \<times> json) list \<Rightarrow> exporter \<Rightarrow> exc + exporter" where
  "append_to_sheets ev i deal_dict st =
     (if \<not> worksheet st then Inr st
      else (case append_to_sheets_body ev i deal_dict st of
              (Some e, st') \<Rightarrow> Inr st'
            | (None, st') \<Rightarrow> Inr st'))"

text \<open>
  \<open>export_deal\<close>, from the dict that \<open>model_dump\<close> returns: the append log, the TSV
  file, then the sheet when there is a worksheet.
\<close>

definition export_deal :: "env \<Rightarrow> io \<Rightarrow> (string \<times> json) list \<Rightarrow> exporter \<Rightarrow> exc + exporter" where
  "export_deal ev i deal_dict st =
     and_then (append_jsonl i deal_dict st) (\<lambda>st.
     and_then (append_tsv ev i deal_dict st) (\<lambda>st.
       if worksheet st then append_to_sheets ev i deal_dict st else Inr st))"

text \<open>A run: the records exported one after the other, each with its own outcomes.\<close>

fun export_all :: "env \<Rightarrow> (io \<times> (string \<times> json) list) list \<Rightarrow> exporter \<Rightarrow> exc + exporter" where
  "export_all ev [] st = Inr st"
| "export_all ev ((i, deal_dict) # rest) st =
     and_then (export_deal ev i deal_dict st) (export_all ev rest)"

subsection \<open>Construction\<close>

text \<open>\<open>str.lower\<close> and \<open>str.strip\<close> on ASCII text.\<close>

definition lower_char :: "char \<Rightarrow> char" where
  "lower_char c =
     (let n = (of_char c :: nat) in if 65 \<le> n \<and> n \<le> 90 then char_of (n + 32) else c)"

definition is_space :: "char \<Rightarrow> bool" where
  "is_space c = ((of_char c :: nat) \<in> {9, 10, 11, 12, 13, 28, 29, 30, 31, 32})"

definition strip :: "string \<Rightarrow> string" where
  "strip s = rev (dropWhile is_space (rev (dropWhile is_space s)))"

fun find_deal_id_col :: "nat \<Rightarrow> string list \<Rightarrow> nat option" where
  "find_deal_id_col idx [] = None"
| "find_deal_id_col idx (col_name # rest) =
     (if map lower_char col_name = ''deal_id'' then Some idx
      else find_deal_id_col (idx + 1) rest)"

text \<open>Lines 118 to 122: one existing row of the sheet entered in the index.\<close>

definition index_row :: "nat \<Rightarrow> nat \<times> string list \<Rightarrow> (string \<times> nat) list \<Rightarrow> (string \<times> nat) list" where
  "index_row deal_id_col_idx numbered_row idx =
     (let row_idx = fst numbered_row; row_data = snd numbered_row
      in if length row_data > deal_id_col_idx \<and> row_data ! deal_id_col_idx \<noteq> [] then
           (let deal_id = strip (row_data ! deal_id_col_idx)
            in if deal_id \<noteq> [] then AList.update deal_id row_idx idx else idx)
         else idx)"

definition build_index :: "string list list \<Rightarrow> (string \<times> nat) list" where
  "build_index existing_data =
     (case find_deal_id_col 0 (hd existing_data) of
        None \<Rightarrow> []
      | Some deal_id_col_idx \<Rightarrow>
          fold (index_row deal_id_col_idx)
            (zip [2..<Suc (length existing_data)] (tl existing_data)) [])"

text \<open>
  What \<open>_init_google_sheets\<close> meets: a failure that leaves no worksheet, no
  spreadsheet, a worksheet it has to create (2000 rows, 50 columns), or an existing
  worksheet with its cells, its column capacity and the outcome of the resize.
\<close>

datatype remote =
    Unavailable
  | NoSpreadsheet
  | NewWorksheet
  | Existing "json list list" nat "exc option"

definition init_google_sheets :: "env \<Rightarrow> remote \<Rightarrow> exporter \<Rightarrow> exporter" where
  "init_google_sheets ev r st =
     (case r of
        Unavailable \<Rightarrow> st\<lparr>worksheet := False, deal_id_to_row := []\<rparr>
      | NoSpreadsheet \<Rightarrow> st\<lparr>worksheet := False, deal_id_to_row := []\<rparr>
      | NewWorksheet \<Rightarrow> st\<lparr>worksheet := True, sheet := [], col_count := 50, deal_id_to_row := []\<rparr>
      | Existing cells cols resize_outcome \<Rightarrow>
          (let st = st\<lparr>worksheet := True, sheet := cells, col_count := cols\<rparr>;
               existing_data = get_all_values ev st;
               st = (if length existing_data > 1 then
                       st\<lparr>sheets_header_written := True,
                          deal_id_to_row := build_index existing_data,
                          sheets_header_columns := Some (length (hd existing_data)),
                          sheets_next_row := length existing_data + 1\<rparr>
                     else if length existing_data = 1 then
                       st\<lparr>sheets_header_written := True,
                          sheets_next_row := 2,
                          deal_id_to_row := [],
                          sheets_header_columns := Some (length (hd existing_data))\<rparr>
                     else st);
               cols_needed = max (max 50 cols) 40
           in if cols_needed > cols then
                (case resize_outcome of Some e \<Rightarrow> st | None \<Rightarrow> st\<lparr>col_count := cols_needed\<rparr>)
              else st))"

text \<open>
  \<open>IncrementalExporter.__init__\<close>. \<open>existing_tsv\<close> is the TSV file of an earlier run,
  if there is one, and \<open>read_csv_columns\<close> is pandas reading its header;
  \<open>google_sheets\<close> is \<open>None\<close> when no spreadsheet id is configured.
\<close>

definition new_exporter ::
  "env \<Rightarrow> json list \<Rightarrow> json list list option \<Rightarrow> (json list list \<Rightarrow> exc + string list) \<Rightarrow>
   remote option \<Rightarrow> exporter" where
  "new_exporter ev existing_jsonl existing_tsv read_csv_columns google_sheets =
     (let header = (case existing_tsv of
                      None \<Rightarrow> None
                    | Some ls \<Rightarrow> (case read_csv_columns ls of Inl e \<Rightarrow> None | Inr cols \<Rightarrow> Some cols));
          st = \<lparr>jsonl_file = existing_jsonl,
                tsv_file = existing_tsv,
                tsv_header_written = (header \<noteq> None),
                tsv_columns = header,
                worksheet = False,
                sheet = [],
                col_count = 0,
                sheets_header_written = False,
                sheets_header_updated = False,
                sheets_header_columns = None,
                sheets_next_row = 2,
                deal_id_to_row = []\<rparr>
      in case google_sheets of None \<Rightarrow> st | Some r \<Rightarrow> init_google_sheets ev r st)"

section \<open>Predicates used in the statements\<close>

text \<open>
  A backing file is corrupt when it cannot be opened or parsed, when the document in it
  is not an object, or when the key list in it is not a collection of hashable values.
\<close>

fun hashable :: "json \<Rightarrow> bool" where
  "hashable (JList xs) = False"
| "hashable (JDict kvs) = False"
| "hashable _ = True"

fun readable_ids :: "json \<Rightarrow> bool" where
  "readable_ids (JList xs) = list_all hashable xs"
| "readable_ids (JStr s) = True"
| "readable_ids (JDict kvs) = True"
| "readable_ids _ = False"

fun corrupt :: "string \<Rightarrow> backing_file \<Rightarrow> bool" where
  "corrupt field (Inaccessible e) = False"
| "corrupt field Absent = False"
| "corrupt field (Unreadable e) = True"
| "corrupt field (Content (JDict kvs)) =
     (case map_of kvs field of None \<Rightarrow> False | Some ids \<Rightarrow> \<not> readable_ids ids)"
| "corrupt field (Content _) = True"

text \<open>The number of clusters of a partition that hold a given item.\<close>

definition clusters_containing :: "nat \<Rightarrow> nat list list \<Rightarrow> nat" where
  "clusters_containing i cs = length (filter (\<lambda>c. i \<in> set c) cs)"



text \<open>
  Fitted mixtures for the concrete runs below, given by their membership probabilities
  over two components. In \<open>crowded\<close> nine of twelve items sit in component 0. In
  \<open>lone_overlap\<close> and \<open>shared_overlap\<close> item 0 is at one half in both components; the
  second component has three more members in the former, five more in the latter.
\<close>

definition soft_only :: "(nat \<Rightarrow> nat \<Rightarrow> rat) \<Rightarrow> sklearn" where
  "soft_only P =
     \<lparr>gmm_fit_predict = (\<lambda>k. Inl ValueError), kmeans_fit_predict = (\<lambda>k. Inl ValueError),
      gmm_bic = (\<lambda>k. Inl ValueError), gmm_predict_proba = (\<lambda>k. Inr P)\<rparr>"

definition crowded :: "nat \<Rightarrow> nat \<Rightarrow> rat" where
  "crowded idx c =
     (if idx < 9 then (if c = 0 then 9 / 10 else 1 / 10)
      else (if c = 0 then 1 / 10 else 9 / 10))"



text \<open>
  The parts of an exporter's state that belong to the two file sinks, to the TSV file
  alone, and to the index of the sheet.
\<close>

definition local_sinks :: "exporter \<Rightarrow> json list \<times> json list list option \<times> bool \<times> string list option" where
  "local_sinks st = (jsonl_file st, tsv_file st, tsv_header_written st, tsv_columns st)"

definition tsv_part :: "exporter \<Rightarrow> json list list option \<times> bool \<times> string list option" where
  "tsv_part st = (tsv_file st, tsv_header_written st, tsv_columns st)"

definition sheet_index :: "exporter \<Rightarrow> bool \<times> (string \<times> nat) list" where
  "sheet_index st = (worksheet st, deal_id_to_row st)"

text \<open>The state after the append-log step and after the TSV step of \<open>export_deal\<close>.\<close>

definition after_jsonl :: "io \<Rightarrow> (string \<times> json) list \<Rightarrow> exporter \<Rightarrow> exporter" where
  "after_jsonl i d st =
    (case jsonl_write i of None \<Rightarrow> st\<lparr>jsonl_file := jsonl_file st @ [JDict d]\<rparr> | Some e \<Rightarrow> st)"

definition after_tsv :: "env \<Rightarrow> io \<Rightarrow> (string \<times> json) list \<Rightarrow> exporter \<Rightarrow> exporter" where
  "after_tsv ev i d st = (case append_tsv_body ev i d st of Inl e \<Rightarrow> st | Inr s \<Rightarrow> s)"

text \<open>
  The rows that later records add to a TSV file whose columns are \<open>cols\<close>: one for
  each record whose write succeeds, reindexed to \<open>cols\<close>.
\<close>

definition tsv_rows :: "env \<Rightarrow> string list \<Rightarrow> (io \<times> (string \<times> json) list) list \<Rightarrow> json list list" where
  "tsv_rows ev cols later =
     map (\<lambda>x. reindex cols (flattened_record (dumps ev) (snd x)))
       (filter (\<lambda>x. tsv_write (fst x) = None) later)"

text \<open>The cells of row \<open>r\<close> of a sheet; a row that is not there has no cells.\<close>

definition row_at :: "nat \<Rightarrow> json list list \<Rightarrow> json list" where
  "row_at r cells = (if 0 < r \<and> r \<le> length cells then cells ! (r - 1) else [])"

text \<open>
  Collaborators and records for the concrete runs below: library functions that return
  fixed text, a call in which every operation succeeds, a call in which every operation
  on the sheet fails, a TSV header that cannot be read, three records with five, seven
  (five shared) and two flattened fields, and a new exporter over a worksheet it has just
  created.
\<close>

definition plain_env :: env where
  "plain_env = \<lparr>dumps = (\<lambda>v. ''{}''), repr = (\<lambda>v. []), render = (\<lambda>v. [])\<rparr>"

definition all_ok :: io where
  "all_ok = \<lparr>jsonl_write = None, tsv_write = None, sheet_get_all_values = None,
             sheet_resize = None, sheet_update_header = None, sheet_update_row = None\<rparr>"

definition sheet_down :: io where
  "sheet_down = \<lparr>jsonl_write = None, tsv_write = None, sheet_get_all_values = Some APIError,
                 sheet_resize = Some APIError, sheet_update_header = Some APIError,
                 sheet_update_row = Some APIError\<rparr>"

definition no_header :: "json list list \<Rightarrow> exc + string list" where
  "no_header ls = Inl EmptyDataError"

definition first_record :: "(string \<times> json) list" where
  "first_record =
     [(''deal_id'', JStr ''A''), (''deal_name'', JStr ''Alpha''), (''floor_price'', JNum 2),
      (''taxonomy'', JDict [(''tier1'', JStr ''Auto'')]), (''raw_deal_data'', JDict [])]"

definition wider_record :: "(string \<times> json) list" where
  "wider_record =
     [(''deal_id'', JStr ''B''), (''deal_name'', JStr ''Beta''), (''floor_price'', JNum 3),
      (''taxonomy'', JDict [(''tier1'', JStr ''News''), (''tier2'', JStr ''Local'')]),
      (''format'', JStr ''video''), (''raw_deal_data'', JDict [])]"

definition sparse_record :: "(string \<times> json) list" where
  "sparse_record = [(''deal_id'', JStr ''C''), (''raw_deal_data'', JDict [])]"

definition new_sheet_exporter :: exporter where
  "new_sheet_exporter = new_exporter plain_env [] None no_header (Some NewWorksheet)"

section \<open>Checkpoint store: results\<close>

lemma get_unprocessed_deals_filter:
  "get_unprocessed_deals cp deals =
     filter (\<lambda>d. \<not> truthy (lookup_deal_id d) \<or> \<not> is_processed cp (lookup_deal_id d)) deals"
  by (induction deals) (auto simp: keep_deal_def Let_def)

text \<open>
  Claim C10. \<open>get_unprocessed_deals\<close> returns, in input order, the deals that have no
  truthy key or whose key is not in the processed set; in particular a deal with no
  \<open>deal_id\<close> attribute and no \<open>'deal_id'\<close> entry is returned whatever the checkpoint
  holds.
\<close>

theorem get_unprocessed_deals_spec:
  "get_unprocessed_deals cp deals =
     filter (\<lambda>d. \<not> truthy (lookup_deal_id d) \<or> lookup_deal_id d \<notin> processed cp) deals
   \<and> get_unprocessed_deals cp [Obj None x] = [Obj None x]
   \<and> get_unprocessed_deals cp [DictDeal None x] = [DictDeal None x]"
  by (simp add: get_unprocessed_deals_filter is_processed_def keep_deal_def)

theorem get_unprocessed_deals_spec_witness:
  "get_unprocessed_deals
     \<lparr>processed = {KStr ''A'', KStr ''B''}, source_file = JNull, last_updated = JNull\<rparr>
     [Obj (Some (KStr ''A'')) (1::nat), Obj None 2, DictDeal (Some (KStr ''B'')) 3,
      Obj (Some (KStr ''C'')) 4, DictDeal (Some (KStr [])) 5, DictDeal None 6]
   = [Obj None 2, Obj (Some (KStr ''C'')) 4, DictDeal (Some (KStr [])) 5, DictDeal None 6]"
  by (subst get_unprocessed_deals_spec [THEN conjunct1]) simp

lemma keys_of_unhashable: "\<not> list_all hashable xs \<Longrightarrow> \<exists>e. keys_of xs = Inl e"
proof (induction xs)
  case Nil then show ?case by simp
next
  case (Cons x xs)
  show ?case
  proof (cases "hashable x")
    case False then show ?thesis by (cases x) (simp_all add: and_then_def)
  next
    case True
    with Cons obtain e where "keys_of xs = Inl e" by auto
    then show ?thesis by (cases x) (simp_all add: and_then_def)
  qed
qed

lemma py_set_unreadable: "\<not> readable_ids ids \<Longrightarrow> \<exists>e. py_set ids = Inl e"
  by (cases ids) (simp_all add: keys_of_unhashable)

lemma load_total: "(\<forall>e. bf \<noteq> Inaccessible e) \<Longrightarrow> \<exists>cp'. load field bf cp = Inr cp'"
  by (cases bf) (auto simp: load_def try_except_def split: sum.splits)

lemma load_body_corrupt:
  "corrupt field (Content data) \<Longrightarrow> \<exists>e. load_body field data cp = Inl e"
proof (cases data)
  case (JDict kvs)
  assume c: "corrupt field (Content data)"
  with JDict obtain ids where ids: "map_of kvs field = Some ids" "\<not> readable_ids ids"
    by (auto split: option.splits)
  from py_set_unreadable [OF ids(2)] obtain e where "py_set ids = Inl e" ..
  with JDict ids show ?thesis by (simp add: load_body_def and_then_def)
qed (simp_all add: load_body_def and_then_def)

lemma load_corrupt:
  assumes "corrupt field bf"
  shows "load field bf cp = Inr (cp\<lparr>processed := {}\<rparr>)"
proof (cases bf)
  case (Inaccessible e) with assms show ?thesis by simp
next
  case Absent with assms show ?thesis by simp
next
  case (Unreadable e) then show ?thesis by (simp add: load_def try_except_def)
next
  case (Content data)
  with assms load_body_corrupt obtain e where "load_body field data cp = Inl e" by blast
  with Content show ?thesis by (simp add: load_def try_except_def)
qed

lemma corrupt_content_starts_over:
  assumes "corrupt field bf"
  shows "load field bf new_checkpoint = Inr new_checkpoint"
  using load_corrupt [OF assms, of new_checkpoint] by (simp add: new_checkpoint_def)

text \<open>
  Claim C9, at a backing file whose path lies in a directory that may not be searched, so
  that \<open>checkpoint_file.exists()\<close> raises \<open>PermissionError\<close>: the test stands before
  the \<open>try\<close> of \<open>_load\<close>, and both constructors raise. (Where the test returns, a
  corrupt or unreadable file does give the empty store, \<open>corrupt_content_starts_over\<close>.)
\<close>

theorem inaccessible_checkpoint_raises:
  "EnrichmentCheckpoint (Inaccessible PermissionError) = Inl PermissionError
   \<and> PackageCreationCheckpoint (Inaccessible PermissionError) = Inl PermissionError"
  by (simp add: EnrichmentCheckpoint_def PackageCreationCheckpoint_def load_def)

section \<open>Batch processor: results\<close>






text \<open>
  Claim C3, at one deal that enriches successfully, with a checkpoint and an exporter: the
  stage-1 loop marks the key in the checkpoint before it hands the record to the
  exporter.
\<close>

theorem enrich_batch_marks_before_export:
  "enrich_batch (\<lambda>d. Inr ''enriched A'') clock [Obj (Some (KStr ''A'')) ()] None True True
     (Some Absent) True
   = (None, \<lparr>results = [''enriched A''], errors = 0,
        ckpt = Some \<lparr>processed = {KStr ''A''}, source_file = JNull,
                      last_updated = JStr (clock 3)\<rparr>,
        trace = [Process (Obj (Some (KStr ''A'')) ()), Mark (KStr ''A''), Export ''enriched A'',
                 Save {KStr ''A''}]\<rparr>)"
  by (simp add: enrich_batch_def EnrichmentCheckpoint_def load_def new_checkpoint_def and_then_def
      keep_deal_def is_processed_def enrich_iteration_def enrich_try_def log_event_def mark_def
      mark_processed_def save_def sortable_def Let_def eval_nat_numeral)

section \<open>Partitioner: results\<close>

lemma chunks_length: "c \<in> set (chunks m xs) \<Longrightarrow> length c \<le> m \<and> c \<noteq> []"
proof (induction m xs rule: chunks.induct)
  case (1 m xs)
  show ?case
  proof (cases "m = 0 \<or> xs = []")
    case True
    with "1.prems" show ?thesis by (simp add: chunks.simps)
  next
    case False
    with "1.prems" have "c = take m xs \<or> c \<in> set (chunks m (drop m xs))"
      by (subst (asm) chunks.simps) auto
    with False "1.IH" show ?thesis by auto
  qed
qed

lemma slices_length: "c \<in> set (slices step xs) \<Longrightarrow> int (length c) \<le> step"
  using chunks_length [of c "nat step" xs] by (auto simp: slices_def split: if_splits)

lemma split_large_length: "c \<in> set (split_large mx xs) \<Longrightarrow> int (length c) \<le> mx"
  by (auto simp: split_large_def slices_length split: if_splits)

lemma final_clusters_bounds:
  "c \<in> set (final_clusters mx mn labels) \<Longrightarrow> mn \<le> int (length c) \<and> int (length c) \<le> mx"
  by (auto simp: final_clusters_def split_large_length)

lemma hard_mode_bounds:
  assumes "cluster_deals_semantically sk n_deals n_samples mx mn method n_components = Inr cs"
      and "c \<in> set cs"
  shows "mn \<le> int (length c) \<and> int (length c) \<le> mx"
  using assms
  by (auto simp: cluster_deals_semantically_def and_then_def final_clusters_bounds
      split: if_splits sum.splits)

lemma component_clusters_upper:
  "c \<in> set (component_clusters n P mx mn thr ci) \<Longrightarrow> int (length c) \<le> mx"
  by (auto simp: component_clusters_def Let_def slices_length split: if_splits)

lemma soft_mode_upper_bound:
  assumes "cluster_deals_with_soft_assignments sk n_deals n_samples mx mn thr = Inr cs"
      and "c \<in> set cs"
  shows "int (length c) \<le> mx"
  using assms
  by (auto simp: cluster_deals_with_soft_assignments_def and_then_def component_clusters_upper
      split: if_splits sum.splits)

lemma upt12: "[0..<12] = [0, Suc 0, 2, 3, 4, 5, 6, 7, 8, 9, 10, 11]"
  by code_simp

lemma upt2: "[0..<2] = [0, Suc 0]"
  by code_simp

lemma crowded_members0: "component_members 12 crowded (3 / 10) 0 = [0, Suc 0, 2, 3, 4, 5, 6, 7, 8]"
  by (simp add: component_members_def crowded_def upt12)

lemma crowded_members1: "component_members 12 crowded (3 / 10) (Suc 0) = [9, 10, 11]"
  by (simp add: component_members_def crowded_def upt12)

lemma chunks_9: "chunks 8 [0, Suc 0, 2, 3, 4, 5, 6, 7, 8] = [[0, Suc 0, 2, 3, 4, 5, 6, 7], [8]]"
  by code_simp

lemma crowded_sorted:
  "sort_key (\<lambda>idx. - crowded idx 0) [0, Suc 0, 2, 3, 4, 5, 6, 7, 8] = [0, Suc 0, 2, 3, 4, 5, 6, 7, 8]"
  by (simp add: crowded_def)

lemma crowded_clusters0:
  "component_clusters 12 crowded 8 5 (3 / 10) 0 = [[0, Suc 0, 2, 3, 4, 5, 6, 7], [8]]"
  unfolding component_clusters_def crowded_members0 Let_def
  by (simp add: slices_def crowded_sorted chunks_9 del: sort_key_simps)

lemma crowded_clusters1: "component_clusters 12 crowded 8 5 (3 / 10) (Suc 0) = []"
  by (simp add: component_clusters_def crowded_members1)

lemma target_12_8_5: "target_n_clusters 12 8 5 = Inr 2"
  by (simp add: target_n_clusters_def)

text \<open>
  Claim C1, in soft mode at 12 items with \<open>min_cluster_size = 5\<close> and
  \<open>max_deals_per_cluster = 8\<close>, nine of them at probability 0.9 in component 0: the nine
  are cut into a chunk of eight and a chunk of one, and the chunk of one is returned,
  below the minimum. (In hard mode the bounds hold, \<open>hard_mode_bounds\<close>; in soft mode
  the upper bound holds, \<open>soft_mode_upper_bound\<close>.)
\<close>

theorem soft_mode_keeps_undersized_tail:
  "cluster_deals_with_soft_assignments (soft_only crowded) 12 12 8 5 (3 / 10)
   = Inr [[0, 1, 2, 3, 4, 5, 6, 7], [8]]"
  by (simp add: cluster_deals_with_soft_assignments_def target_12_8_5 and_then_def soft_only_def
      upt2 crowded_clusters0 crowded_clusters1)

text \<open>
  Claim C5, at 12 items with \<open>min_cluster_size = 5\<close> and \<open>max_deals_per_cluster = 8\<close>:
  lines 58 and 59 compute 2, and k-means is fitted with 2 clusters; but with the default
  method and no \<open>n_components\<close>, \<open>_select_optimal_components\<close> scans the empty range
  from 3 to 2 and returns 3, whatever the criterion, and the mixture is fitted with 3
  components.
\<close>

theorem components_for_12_5_8:
  "target_n_clusters 12 8 5 = Inr 2
   \<and> select_optimal_components 12 (gmm_bic sk) 2 3 = 3
   \<and> cluster_deals_semantically sk 12 12 8 5 Gmm None
       = and_then (gmm_fit_predict sk 3) (\<lambda>labels. Inr (final_clusters 8 5 labels))
   \<and> cluster_deals_semantically sk 12 12 8 5 Kmeans None
       = and_then (kmeans_fit_predict sk 2) (\<lambda>labels. Inr (final_clusters 8 5 labels))"
proof -
  note k = target_12_8_5
  have s: "select_optimal_components 12 fit_bic 2 3 = 3" for fit_bic
    by (simp add: select_optimal_components_def)
  show ?thesis
    by (simp add: k s cluster_deals_semantically_def cluster_labels_def and_then_def)
qed






lemma clusters_containing_concat:
  "clusters_containing i (concat xss) = sum_list (map (clusters_containing i) xss)"
  by (induction xss) (simp_all add: clusters_containing_def)
















section \<open>Incremental exporter: results\<close>

lemma resize_for_frame:
  "local_sinks (resize_for i n st) = local_sinks st \<and> sheet_index (resize_for i n st) = sheet_index st
   \<and> sheet (resize_for i n st) = sheet st \<and> sheets_next_row (resize_for i n st) = sheets_next_row st"
  by (simp add: resize_for_def Let_def local_sinks_def sheet_index_def split: option.splits)

lemma write_header_frame:
  "write_header i h b st = (r, st') \<Longrightarrow>
     local_sinks st' = local_sinks st \<and> sheet_index st' = sheet_index st
     \<and> sheets_next_row st' = sheets_next_row st"
  using resize_for_frame [of i "length h" st]
  by (auto simp: write_header_def Let_def local_sinks_def sheet_index_def split: option.splits)

lemma check_header_frame:
  "check_header ev i h st = (r, st') \<Longrightarrow>
     local_sinks st' = local_sinks st \<and> sheet_index st' = sheet_index st
     \<and> sheets_next_row st' = sheets_next_row st"
  by (auto simp: check_header_def split: if_splits option.splits list.splits
      dest: write_header_frame)

lemma header_width_frame:
  "header_width ev i n st = (r, w, st') \<Longrightarrow>
     local_sinks st' = local_sinks st \<and> sheet_index st' = sheet_index st
     \<and> sheets_next_row st' = sheets_next_row st \<and> sheet st' = sheet st"
  by (auto simp: header_width_def local_sinks_def sheet_index_def
      split: if_splits option.splits list.splits)

lemma place_row_frame:
  "place_row i t row st = (r, st') \<Longrightarrow>
     local_sinks st' = local_sinks st \<and> sheet_index st' = sheet_index st"
  by (auto simp: place_row_def local_sinks_def sheet_index_def split: if_splits option.splits)

lemma append_to_sheets_body_frame:
  assumes "append_to_sheets_body ev i d st = (r, st')"
  shows "local_sinks st' = local_sinks st \<and> sheet_index st' = sheet_index st"
proof -
  let ?flat = "flattened_record (dumps ev) d"
  obtain r1 st1 where c: "check_header ev i (map fst ?flat) st = (r1, st1)"
    by (cases "check_header ev i (map fst ?flat) st")
  note f1 = check_header_frame [OF c]
  show ?thesis
  proof (cases r1)
    case (Some e)
    with assms c f1 show ?thesis by (simp add: append_to_sheets_body_def Let_def)
  next
    case None
    obtain r2 w st2 where h: "header_width ev i (length (map fst ?flat)) st1 = (r2, w, st2)"
      by (cases "header_width ev i (length (map fst ?flat)) st1")
    note f2 = header_width_frame [OF h]
    show ?thesis
    proof (cases r2)
      case (Some e)
      with assms c h None f1 f2 show ?thesis by (simp add: append_to_sheets_body_def Let_def)
    next
      case n2: None
      with assms c h None have
        "place_row i (target_row ev d st2) (fit_row w (map (\<lambda>kv. sheet_value (snd kv)) ?flat)) st2
         = (r, st')"
        by (simp add: append_to_sheets_body_def Let_def)
      from place_row_frame [OF this] f1 f2 show ?thesis by simp
    qed
  qed
qed

lemma append_to_sheets_frame:
  "\<exists>st'. append_to_sheets ev i d st = Inr st' \<and> local_sinks st' = local_sinks st
         \<and> sheet_index st' = sheet_index st"
proof (cases "worksheet st")
  case False
  then show ?thesis by (simp add: append_to_sheets_def)
next
  case True
  obtain r st' where b: "append_to_sheets_body ev i d st = (r, st')"
    by (cases "append_to_sheets_body ev i d st")
  from append_to_sheets_body_frame [OF b] True b show ?thesis
    by (cases r) (simp_all add: append_to_sheets_def)
qed

lemma append_jsonl_result:
  "append_jsonl i d st =
     Inr (case jsonl_write i of None \<Rightarrow> st\<lparr>jsonl_file := jsonl_file st @ [JDict d]\<rparr> | Some e \<Rightarrow> st)"
  by (simp add: append_jsonl_def try_except_def raising_def split: option.splits)

lemma append_tsv_body_cong:
  "tsv_write i' = tsv_write i \<Longrightarrow> append_tsv_body ev i' d st = append_tsv_body ev i d st"
  by (simp add: append_tsv_body_def Let_def)

lemma append_tsv_body_after_jsonl:
  "map_sum id tsv_part (append_tsv_body ev i d (st\<lparr>jsonl_file := jl\<rparr>))
   = map_sum id tsv_part (append_tsv_body ev i d st)"
  by (simp add: append_tsv_body_def raising_def Let_def tsv_part_def split: option.splits)

lemma append_tsv_body_keeps_jsonl:
  "append_tsv_body ev i d st = Inr st2 \<Longrightarrow>
     jsonl_file st2 = jsonl_file st \<and> sheet_index st2 = sheet_index st"
  by (auto simp: append_tsv_body_def raising_def Let_def sheet_index_def
      split: option.splits if_splits)

lemma append_jsonl_after: "append_jsonl i d st = Inr (after_jsonl i d st)"
  unfolding after_jsonl_def by (rule append_jsonl_result)

lemma after_jsonl_log: "jsonl_file (after_jsonl i d st) =
         (case jsonl_write i of None \<Rightarrow> jsonl_file st @ [JDict d] | Some e \<Rightarrow> jsonl_file st)"
  by (simp add: after_jsonl_def split: option.splits)

lemma after_jsonl_tsv: "tsv_part (after_jsonl i d st) = tsv_part st"
  by (simp add: after_jsonl_def tsv_part_def split: option.splits)

lemma after_jsonl_index: "sheet_index (after_jsonl i d st) = sheet_index st"
  by (simp add: after_jsonl_def sheet_index_def split: option.splits)

lemma tsv_body_after_jsonl: "map_sum id tsv_part (append_tsv_body ev i d (after_jsonl i d st))
            = map_sum id tsv_part (append_tsv_body ev i d st)"
proof (cases "jsonl_write i")
  case None
  then show ?thesis
    using append_tsv_body_after_jsonl [where ev = ev and i = i and d = d and st = st]
    by (simp add: after_jsonl_def)
next
  case (Some e)
  then show ?thesis by (simp add: after_jsonl_def)
qed

lemma append_tsv_after: "append_tsv ev i d st = Inr (after_tsv ev i d st)"
  by (simp add: after_tsv_def append_tsv_def try_except_def split: sum.splits)

lemma after_tsv_log: "jsonl_file (after_tsv ev i d st) = jsonl_file st"
  using append_tsv_body_keeps_jsonl [of ev i d st]
  by (cases "append_tsv_body ev i d st") (simp_all add: after_tsv_def)

lemma after_tsv_index: "sheet_index (after_tsv ev i d st) = sheet_index st"
  using append_tsv_body_keeps_jsonl [of ev i d st]
  by (cases "append_tsv_body ev i d st") (simp_all add: after_tsv_def)

lemma after_tsv_tsv: "tsv_part (after_tsv ev i d (after_jsonl i d st)) =
         (case append_tsv_body ev i d st of Inl e \<Rightarrow> tsv_part st | Inr s \<Rightarrow> tsv_part s)"
proof (cases "append_tsv_body ev i d (after_jsonl i d st)")
  case (Inl e)
  with tsv_body_after_jsonl [of ev i d st] obtain e' where "append_tsv_body ev i d st = Inl e'"
    by (cases "append_tsv_body ev i d st") auto
  with Inl show ?thesis by (simp add: after_tsv_def after_jsonl_tsv)
next
  case (Inr s)
  with tsv_body_after_jsonl [of ev i d st] obtain s' where "append_tsv_body ev i d st = Inr s'" "tsv_part s' = tsv_part s"
    by (cases "append_tsv_body ev i d st") auto
  with Inr show ?thesis by (simp add: after_tsv_def)
qed

lemma export_deal_local:
  "\<exists>st'. export_deal ev i d st = Inr st'
     \<and> jsonl_file st' =
         (case jsonl_write i of None \<Rightarrow> jsonl_file st @ [JDict d] | Some e \<Rightarrow> jsonl_file st)
     \<and> tsv_part st' =
         (case append_tsv_body ev i d st of Inl e \<Rightarrow> tsv_part st | Inr st2 \<Rightarrow> tsv_part st2)
     \<and> sheet_index st' = sheet_index st"
proof -
  let ?st2 = "after_tsv ev i d (after_jsonl i d st)"
  from append_to_sheets_frame [of ev i d ?st2]
  obtain st3 where s3: "append_to_sheets ev i d ?st2 = Inr st3"
    "local_sinks st3 = local_sinks ?st2" "sheet_index st3 = sheet_index ?st2" by blast
  from s3(2) have l3: "jsonl_file st3 = jsonl_file ?st2" "tsv_part st3 = tsv_part ?st2"
    by (simp_all add: local_sinks_def tsv_part_def)
  have e: "export_deal ev i d st = Inr (if worksheet ?st2 then st3 else ?st2)"
    by (simp add: export_deal_def append_jsonl_after append_tsv_after and_then_def s3(1))
  show ?thesis
  proof (cases "worksheet ?st2")
    case True
    with e have "export_deal ev i d st = Inr st3" by simp
    moreover have "jsonl_file st3 =
         (case jsonl_write i of None \<Rightarrow> jsonl_file st @ [JDict d] | Some e \<Rightarrow> jsonl_file st)"
      by (simp only: l3(1) after_tsv_log after_jsonl_log)
    moreover have "tsv_part st3 =
         (case append_tsv_body ev i d st of Inl e \<Rightarrow> tsv_part st | Inr st2 \<Rightarrow> tsv_part st2)"
      by (simp only: l3(2) after_tsv_tsv)
    moreover have "sheet_index st3 = sheet_index st"
      by (simp only: s3(3) after_tsv_index after_jsonl_index)
    ultimately show ?thesis by blast
  next
    case False
    with e have "export_deal ev i d st = Inr ?st2" by simp
    moreover have "jsonl_file ?st2 =
         (case jsonl_write i of None \<Rightarrow> jsonl_file st @ [JDict d] | Some e \<Rightarrow> jsonl_file st)"
      by (simp only: after_tsv_log after_jsonl_log)
    moreover have "tsv_part ?st2 =
         (case append_tsv_body ev i d st of Inl e \<Rightarrow> tsv_part st | Inr st2 \<Rightarrow> tsv_part st2)"
      by (simp only: after_tsv_tsv)
    moreover have "sheet_index ?st2 = sheet_index st"
      by (simp only: after_tsv_index after_jsonl_index)
    ultimately show ?thesis by blast
  qed
qed

lemma new_sheet_exporter_fields:
  "jsonl_file new_sheet_exporter = []" "worksheet new_sheet_exporter"
  "\<not> tsv_header_written new_sheet_exporter"
  by (simp_all add: new_sheet_exporter_def new_exporter_def init_google_sheets_def)

lemma flat_first:
  "flattened_record (dumps plain_env) first_record =
     [(''deal_id'', JStr ''A''), (''deal_name'', JStr ''Alpha''), (''floor_price'', JNum 2),
      (''taxonomy_tier1'', JStr ''Auto''), (''raw_deal_data'', JStr [])]"
  by (simp add: flattened_record_def flatten_dict_def dict_of_items_def first_record_def plain_env_def)

lemma append_tsv_body_closed:
  "(case append_tsv_body ev i d st of Inl e \<Rightarrow> tsv_part st | Inr st2 \<Rightarrow> tsv_part st2) =
     (case tsv_write i of
        Some e \<Rightarrow> tsv_part st
      | None \<Rightarrow>
          (let flattened = flattened_record (dumps ev) d
           in if \<not> tsv_header_written st
              then (Some [map JStr (map fst flattened), map snd flattened], True,
                    Some (map fst flattened))
              else (Some ((case tsv_file st of None \<Rightarrow> [] | Some ls \<Rightarrow> ls) @
                          [case tsv_columns st of
                             None \<Rightarrow> map snd flattened
                           | Some cols \<Rightarrow> if cols \<noteq> [] then reindex cols flattened
                                         else map snd flattened]),
                    True, tsv_columns st)))"
  by (simp add: append_tsv_body_def Let_def raising_def tsv_part_def split: option.splits)

text \<open>
  Claim C6. For every outcome of every sink operation, \<open>export_deal\<close> returns a state
  (no exception leaves it). The append log has the record's line added at its end exactly
  when its own write succeeds. The TSV file, when its own write succeeds, is the header
  and the row of the record if no header was written before, else the lines it had with
  the record's row (reindexed to the stored columns) added at the end; it is unchanged
  when its write fails. Neither depends on what the spreadsheet operations do: a call
  that differs only in their outcomes leaves the same append log and the same TSV file.
\<close>

theorem export_deal_sink_isolation:
  "\<exists>st'. export_deal ev i deal_dict st = Inr st'
     \<and> jsonl_file st' =
         (case jsonl_write i of
            None \<Rightarrow> jsonl_file st @ [JDict deal_dict]
          | Some e \<Rightarrow> jsonl_file st)
     \<and> tsv_part st' =
         (case tsv_write i of
            Some e \<Rightarrow> tsv_part st
          | None \<Rightarrow>
              (let flattened = flattened_record (dumps ev) deal_dict
               in if \<not> tsv_header_written st
                  then (Some [map JStr (map fst flattened), map snd flattened], True,
                        Some (map fst flattened))
                  else (Some ((case tsv_file st of None \<Rightarrow> [] | Some ls \<Rightarrow> ls) @
                              [case tsv_columns st of
                                 None \<Rightarrow> map snd flattened
                               | Some cols \<Rightarrow> if cols \<noteq> [] then reindex cols flattened
                                             else map snd flattened]),
                        True, tsv_columns st)))
     \<and> (\<forall>i'. jsonl_write i' = jsonl_write i \<longrightarrow> tsv_write i' = tsv_write i \<longrightarrow>
           (\<exists>st''. export_deal ev i' deal_dict st = Inr st''
                  \<and> jsonl_file st'' = jsonl_file st' \<and> tsv_part st'' = tsv_part st'))"
proof -
  from export_deal_local [of ev i deal_dict st] obtain st' where
    a: "export_deal ev i deal_dict st = Inr st'"
    and b: "jsonl_file st' =
         (case jsonl_write i of None \<Rightarrow> jsonl_file st @ [JDict deal_dict] | Some e \<Rightarrow> jsonl_file st)"
    and c: "tsv_part st' =
         (case append_tsv_body ev i deal_dict st of Inl e \<Rightarrow> tsv_part st | Inr st2 \<Rightarrow> tsv_part st2)"
    by blast
  have d: "\<exists>st''. export_deal ev i' deal_dict st = Inr st''
                  \<and> jsonl_file st'' = jsonl_file st' \<and> tsv_part st'' = tsv_part st'"
    if w: "jsonl_write i' = jsonl_write i" "tsv_write i' = tsv_write i" for i'
  proof -
    from export_deal_local [of ev i' deal_dict st] obtain st'' where
      a': "export_deal ev i' deal_dict st = Inr st''"
      and b': "jsonl_file st'' =
         (case jsonl_write i' of None \<Rightarrow> jsonl_file st @ [JDict deal_dict] | Some e \<Rightarrow> jsonl_file st)"
      and c': "tsv_part st'' =
         (case append_tsv_body ev i' deal_dict st of Inl e \<Rightarrow> tsv_part st | Inr st2 \<Rightarrow> tsv_part st2)"
      by blast
    have "jsonl_file st'' = jsonl_file st'" by (simp only: b b' w(1))
    moreover have "tsv_part st'' = tsv_part st'"
      by (simp only: c c' append_tsv_body_cong [OF w(2)])
    ultimately show ?thesis using a' by blast
  qed
  show ?thesis
  proof (rule exI [of _ st'], intro conjI allI impI)
    show "export_deal ev i deal_dict st = Inr st'" by (rule a)
    show "jsonl_file st' =
         (case jsonl_write i of None \<Rightarrow> jsonl_file st @ [JDict deal_dict] | Some e \<Rightarrow> jsonl_file st)"
      by (rule b)
    show "tsv_part st' =
         (case tsv_write i of
            Some e \<Rightarrow> tsv_part st
          | None \<Rightarrow>
              (let flattened = flattened_record (dumps ev) deal_dict
               in if \<not> tsv_header_written st
                  then (Some [map JStr (map fst flattened), map snd flattened], True,
                        Some (map fst flattened))
                  else (Some ((case tsv_file st of None \<Rightarrow> [] | Some ls \<Rightarrow> ls) @
                              [case tsv_columns st of
                                 None \<Rightarrow> map snd flattened
                               | Some cols \<Rightarrow> if cols \<noteq> [] then reindex cols flattened
                                             else map snd flattened]),
                        True, tsv_columns st)))"
      by (simp only: c append_tsv_body_closed)
    show "\<exists>st''. export_deal ev i' deal_dict st = Inr st''
                  \<and> jsonl_file st'' = jsonl_file st' \<and> tsv_part st'' = tsv_part st'"
      if "jsonl_write i' = jsonl_write i" "tsv_write i' = tsv_write i" for i'
      using that by (rule d)
  qed
qed

theorem export_deal_sink_isolation_witness:
  "\<exists>st' st''. export_deal plain_env sheet_down first_record new_sheet_exporter = Inr st'
      \<and> export_deal plain_env all_ok first_record new_sheet_exporter = Inr st''
      \<and> jsonl_file st' = [JDict first_record]
      \<and> tsv_file st' =
          Some [[JStr ''deal_id'', JStr ''deal_name'', JStr ''floor_price'', JStr ''taxonomy_tier1'',
                 JStr ''raw_deal_data''],
                [JStr ''A'', JStr ''Alpha'', JNum 2, JStr ''Auto'', JStr []]]
      \<and> jsonl_file st'' = jsonl_file st' \<and> tsv_part st'' = tsv_part st'"
proof -
  from export_deal_sink_isolation [of plain_env sheet_down first_record new_sheet_exporter]
  obtain st' where
    a: "export_deal plain_env sheet_down first_record new_sheet_exporter = Inr st'"
    and b: "jsonl_file st' =
         (case jsonl_write sheet_down of
            None \<Rightarrow> jsonl_file new_sheet_exporter @ [JDict first_record]
          | Some e \<Rightarrow> jsonl_file new_sheet_exporter)"
    and c: "tsv_part st' =
         (case tsv_write sheet_down of
            Some e \<Rightarrow> tsv_part new_sheet_exporter
          | None \<Rightarrow>
              (let flattened = flattened_record (dumps plain_env) first_record
               in if \<not> tsv_header_written new_sheet_exporter
                  then (Some [map JStr (map fst flattened), map snd flattened], True,
                        Some (map fst flattened))
                  else (Some ((case tsv_file new_sheet_exporter of None \<Rightarrow> [] | Some ls \<Rightarrow> ls) @
                              [case tsv_columns new_sheet_exporter of
                                 None \<Rightarrow> map snd flattened
                               | Some cols \<Rightarrow> if cols \<noteq> [] then reindex cols flattened
                                             else map snd flattened]),
                        True, tsv_columns new_sheet_exporter)))"
    and d: "\<forall>i'. jsonl_write i' = jsonl_write sheet_down \<longrightarrow> tsv_write i' = tsv_write sheet_down \<longrightarrow>
           (\<exists>st''. export_deal plain_env i' first_record new_sheet_exporter = Inr st''
                  \<and> jsonl_file st'' = jsonl_file st' \<and> tsv_part st'' = tsv_part st')"
    by blast
  have "jsonl_write all_ok = jsonl_write sheet_down" "tsv_write all_ok = tsv_write sheet_down"
    by (simp_all add: all_ok_def sheet_down_def)
  with d obtain st'' where
    e: "export_deal plain_env all_ok first_record new_sheet_exporter = Inr st''"
    "jsonl_file st'' = jsonl_file st'" "tsv_part st'' = tsv_part st'"
    by blast
  from b have j: "jsonl_file st' = [JDict first_record]"
    by (simp add: sheet_down_def new_sheet_exporter_fields)
  have w: "tsv_write sheet_down = None" by (simp add: sheet_down_def)
  from c have "tsv_part st' =
      (Some [[JStr ''deal_id'', JStr ''deal_name'', JStr ''floor_price'', JStr ''taxonomy_tier1'',
              JStr ''raw_deal_data''],
             [JStr ''A'', JStr ''Alpha'', JNum 2, JStr ''Auto'', JStr []]],
       True,
       Some [''deal_id'', ''deal_name'', ''floor_price'', ''taxonomy_tier1'', ''raw_deal_data''])"
    by (simp add: w new_sheet_exporter_fields flat_first Let_def)
  then have t: "tsv_file st' =
          Some [[JStr ''deal_id'', JStr ''deal_name'', JStr ''floor_price'', JStr ''taxonomy_tier1'',
                 JStr ''raw_deal_data''],
                [JStr ''A'', JStr ''Alpha'', JNum 2, JStr ''Auto'', JStr []]]"
    by (simp add: tsv_part_def)
  from a e j t show ?thesis by blast
qed

lemma flattened_record_has_raw: "''raw_deal_data'' \<in> fst ` set (flattened_record dmp d)"
  by (auto simp: flattened_record_def Let_def)

lemma flattened_record_nonempty: "map fst (flattened_record dmp d) \<noteq> []"
  using flattened_record_has_raw [of dmp d] by auto

lemma append_tsv_body_first:
  assumes "\<not> tsv_header_written st" and "tsv_write i = None"
  shows "\<exists>st2. append_tsv_body ev i d st = Inr st2
           \<and> tsv_part st2 =
               (Some [map JStr (map fst (flattened_record (dumps ev) d)),
                      map snd (flattened_record (dumps ev) d)],
                True, Some (map fst (flattened_record (dumps ev) d)))"
  using assms by (simp add: append_tsv_body_def Let_def raising_def tsv_part_def)

lemma append_tsv_body_later:
  assumes "tsv_header_written st" and "tsv_columns st = Some cols" and "cols \<noteq> []"
      and "tsv_file st = Some ls"
  shows "(case append_tsv_body ev i d st of Inl e \<Rightarrow> tsv_part st | Inr st2 \<Rightarrow> tsv_part st2)
         = (Some (ls @ (if tsv_write i = None then [reindex cols (flattened_record (dumps ev) d)]
                        else [])), True, Some cols)"
  using assms
  by (simp add: append_tsv_body_def Let_def raising_def tsv_part_def split: option.splits)

lemma export_deal_tsv_later:
  assumes "tsv_part st = (Some ls, True, Some cols)" and "cols \<noteq> []"
  shows "\<exists>st'. export_deal ev i d st = Inr st'
           \<and> tsv_part st' =
               (Some (ls @ (if tsv_write i = None
                            then [reindex cols (flattened_record (dumps ev) d)] else [])),
                True, Some cols)"
proof -
  from assms(1) have h: "tsv_header_written st" "tsv_columns st = Some cols" "tsv_file st = Some ls"
    by (simp_all add: tsv_part_def)
  from export_deal_local [of ev i d st] obtain st' where
    "export_deal ev i d st = Inr st'"
    "tsv_part st' =
       (case append_tsv_body ev i d st of Inl e \<Rightarrow> tsv_part st | Inr st2 \<Rightarrow> tsv_part st2)"
    by blast
  then show ?thesis
    by (simp only: append_tsv_body_later [OF h(1) h(2) assms(2) h(3)]) blast
qed

lemma export_all_tsv_later:
  assumes "tsv_part st = (Some ls, True, Some cols)" and "cols \<noteq> []"
  shows "\<exists>st'. export_all ev later st = Inr st'
           \<and> tsv_part st' = (Some (ls @ tsv_rows ev cols later), True, Some cols)"
  using assms(1)
proof (induction later arbitrary: st ls)
  case Nil
  then show ?case by (simp add: tsv_rows_def)
next
  case (Cons x later)
  obtain i d where x: "x = (i, d)" by (cases x)
  let ?new = "if tsv_write i = None then [reindex cols (flattened_record (dumps ev) d)] else []"
  from export_deal_tsv_later [OF Cons.prems assms(2), of ev i d] obtain st1 where
    1: "export_deal ev i d st = Inr st1" and 2: "tsv_part st1 = (Some (ls @ ?new), True, Some cols)"
    by blast
  from Cons.IH [OF 2] obtain st' where
    3: "export_all ev later st1 = Inr st'"
    and 4: "tsv_part st' = (Some ((ls @ ?new) @ tsv_rows ev cols later), True, Some cols)"
    by blast
  have "export_all ev (x # later) st = Inr st'"
    by (simp add: x 1 3 and_then_def)
  moreover have "(ls @ ?new) @ tsv_rows ev cols later = ls @ tsv_rows ev cols (x # later)"
    by (simp add: tsv_rows_def x)
  ultimately show ?case using 4 by auto
qed

lemma export_deal_tsv_first:
  assumes "\<not> tsv_header_written st" and "tsv_write i = None"
  shows "\<exists>st'. export_deal ev i d st = Inr st'
           \<and> tsv_part st' =
               (Some [map JStr (map fst (flattened_record (dumps ev) d)),
                      map snd (flattened_record (dumps ev) d)],
                True, Some (map fst (flattened_record (dumps ev) d)))"
proof -
  from append_tsv_body_first [OF assms, of ev d] obtain st2 where
    b: "append_tsv_body ev i d st = Inr st2"
    "tsv_part st2 =
               (Some [map JStr (map fst (flattened_record (dumps ev) d)),
                      map snd (flattened_record (dumps ev) d)],
                True, Some (map fst (flattened_record (dumps ev) d)))"
    by blast
  from export_deal_local [of ev i d st] obtain st' where
    "export_deal ev i d st = Inr st'"
    "tsv_part st' =
       (case append_tsv_body ev i d st of Inl e \<Rightarrow> tsv_part st | Inr st2 \<Rightarrow> tsv_part st2)"
    by blast
  with b show ?thesis by simp
qed

lemma init_google_sheets_tsv: "tsv_part (init_google_sheets ev r st) = tsv_part st"
  by (cases r) (simp_all add: init_google_sheets_def tsv_part_def Let_def split: option.splits)

lemma new_exporter_resume:
  assumes "read_csv_columns ls = Inr cols"
  shows "tsv_part (new_exporter ev jl (Some ls) read_csv_columns gs) = (Some ls, True, Some cols)"
  using assms
  by (cases gs) (simp_all add: new_exporter_def Let_def init_google_sheets_tsv, simp_all add: tsv_part_def)

lemma flat_wider:
  "flattened_record (dumps plain_env) wider_record =
     [(''deal_id'', JStr ''B''), (''deal_name'', JStr ''Beta''), (''floor_price'', JNum 3),
      (''taxonomy_tier1'', JStr ''News''), (''taxonomy_tier2'', JStr ''Local''),
      (''format'', JStr ''video''), (''raw_deal_data'', JStr [])]"
  by (simp add: flattened_record_def flatten_dict_def dict_of_items_def wider_record_def plain_env_def)

lemma flat_sparse:
  "flattened_record (dumps plain_env) sparse_record =
     [(''deal_id'', JStr ''C''), (''raw_deal_data'', JStr [])]"
  by (simp add: flattened_record_def flatten_dict_def dict_of_items_def sparse_record_def plain_env_def)

lemma fresh_not_written:
  "\<not> tsv_header_written (new_exporter plain_env [] None no_header None)"
  by (simp add: new_exporter_def)

lemma rows_after_first:
  "tsv_rows plain_env [''deal_id'', ''deal_name'', ''floor_price'', ''taxonomy_tier1'', ''raw_deal_data'']
     [(all_ok, wider_record), (all_ok, sparse_record)]
   = [[JStr ''B'', JStr ''Beta'', JNum 3, JStr ''News'', JStr []],
      [JStr ''C'', JNull, JNull, JNull, JStr []]]"
  by (simp add: tsv_rows_def all_ok_def flat_wider flat_sparse reindex_def)

text \<open>
  Claim C7. From a state with no TSV header written, a first record whose write succeeds
  fixes the columns: after any later records the file is the header of the first record's
  flattened fields, its row, and one row per later record whose write succeeds, reindexed
  to those columns. On resume, with a non-empty header read back from the existing file,
  the columns are that header and the later rows are reindexed to it. A reindexed row has
  one cell per column: the record's value for the column, empty when the record has no
  such field; a field outside the columns has no cell.
\<close>

theorem tsv_schema_fixed_by_first_record:
  "(\<not> tsv_header_written st \<longrightarrow> tsv_write i1 = None \<longrightarrow>
      (\<exists>st'. export_all ev ((i1, r1) # later) st = Inr st'
         \<and> tsv_columns st' = Some (map fst (flattened_record (dumps ev) r1))
         \<and> tsv_file st' =
             Some (map JStr (map fst (flattened_record (dumps ev) r1))
                   # map snd (flattened_record (dumps ev) r1)
                   # tsv_rows ev (map fst (flattened_record (dumps ev) r1)) later)))
   \<and> (read_csv_columns ls = Inr cols \<longrightarrow> cols \<noteq> [] \<longrightarrow>
      (\<exists>st'. export_all ev later (new_exporter ev jl (Some ls) read_csv_columns gs) = Inr st'
         \<and> tsv_columns st' = Some cols
         \<and> tsv_file st' = Some (ls @ tsv_rows ev cols later)))
   \<and> (\<forall>row \<in> set (tsv_rows ev cols later). length row = length cols)
   \<and> length (reindex cols flattened) = length cols
   \<and> (\<forall>j < length cols. reindex cols flattened ! j =
         (case map_of flattened (cols ! j) of Some v \<Rightarrow> v | None \<Rightarrow> JNull))"
proof (intro conjI impI)
  let ?flat = "flattened_record (dumps ev) r1"
  assume a: "\<not> tsv_header_written st" "tsv_write i1 = None"
  from export_deal_tsv_first [OF a, of ev r1] obtain st1 where
    1: "export_deal ev i1 r1 st = Inr st1"
    and 2: "tsv_part st1 = (Some [map JStr (map fst ?flat), map snd ?flat], True, Some (map fst ?flat))"
    by blast
  from export_all_tsv_later [OF 2 flattened_record_nonempty, of ev later] obtain st' where
    3: "export_all ev later st1 = Inr st'"
    and 4: "tsv_part st' =
       (Some ([map JStr (map fst ?flat), map snd ?flat] @ tsv_rows ev (map fst ?flat) later),
        True, Some (map fst ?flat))"
    by blast
  have "export_all ev ((i1, r1) # later) st = Inr st'"
    by (simp add: 1 3 and_then_def)
  moreover from 4 have "tsv_columns st' = Some (map fst ?flat)"
    and "tsv_file st' = Some (map JStr (map fst ?flat) # map snd ?flat
                              # tsv_rows ev (map fst ?flat) later)"
    by (simp_all add: tsv_part_def)
  ultimately show "\<exists>st'. export_all ev ((i1, r1) # later) st = Inr st'
         \<and> tsv_columns st' = Some (map fst ?flat)
         \<and> tsv_file st' = Some (map JStr (map fst ?flat) # map snd ?flat
                                 # tsv_rows ev (map fst ?flat) later)"
    by blast
next
  assume b: "read_csv_columns ls = Inr cols" "cols \<noteq> []"
  have r: "tsv_part (new_exporter ev jl (Some ls) read_csv_columns gs) = (Some ls, True, Some cols)"
    using b(1) by (rule new_exporter_resume)
  from export_all_tsv_later [OF r b(2), of ev later]
  obtain st' where
    "export_all ev later (new_exporter ev jl (Some ls) read_csv_columns gs) = Inr st'"
    "tsv_part st' = (Some (ls @ tsv_rows ev cols later), True, Some cols)"
    by blast
  then show "\<exists>st'. export_all ev later (new_exporter ev jl (Some ls) read_csv_columns gs) = Inr st'
         \<and> tsv_columns st' = Some cols
         \<and> tsv_file st' = Some (ls @ tsv_rows ev cols later)"
    by (auto simp: tsv_part_def)
next
  show "\<forall>row \<in> set (tsv_rows ev cols later). length row = length cols"
    by (auto simp: tsv_rows_def reindex_def)
next
  show "length (reindex cols flattened) = length cols"
    by (simp add: reindex_def)
next
  show "\<forall>j < length cols. reindex cols flattened ! j =
         (case map_of flattened (cols ! j) of Some v \<Rightarrow> v | None \<Rightarrow> JNull)"
    by (simp add: reindex_def)
qed

theorem tsv_schema_fixed_by_first_record_witness:
  "\<exists>st'. export_all plain_env [(all_ok, first_record), (all_ok, wider_record), (all_ok, sparse_record)]
            (new_exporter plain_env [] None no_header None) = Inr st'
      \<and> tsv_columns st' =
          Some [''deal_id'', ''deal_name'', ''floor_price'', ''taxonomy_tier1'', ''raw_deal_data'']
      \<and> tsv_file st' =
          Some [[JStr ''deal_id'', JStr ''deal_name'', JStr ''floor_price'', JStr ''taxonomy_tier1'',
                 JStr ''raw_deal_data''],
                [JStr ''A'', JStr ''Alpha'', JNum 2, JStr ''Auto'', JStr []],
                [JStr ''B'', JStr ''Beta'', JNum 3, JStr ''News'', JStr []],
                [JStr ''C'', JNull, JNull, JNull, JStr []]]"
proof -
  have w: "tsv_write all_ok = None" by (simp add: all_ok_def)
  from tsv_schema_fixed_by_first_record
    [where st = "new_exporter plain_env [] None no_header None" and ?i1.0 = all_ok
       and ev = plain_env and ?r1.0 = first_record
       and later = "[(all_ok, wider_record), (all_ok, sparse_record)]",
     THEN conjunct1, rule_format, OF fresh_not_written w]
  show ?thesis
    by (simp only: flat_first list.map fst_conv snd_conv rows_after_first)
qed

end
